theory Spec2Isabelle
  imports Complex_Main "HOL-Library.Sublist"
begin

section \<open>Decoded JSON values and the Python operations the loader applies to them\<close>

text \<open>
  The loader of \<^verbatim>\<open>youtube_community.py\<close> works on the value that
  \<^verbatim>\<open>json.JSONDecoder\<close> returns: dictionaries with string keys, lists, strings,
  numbers, booleans and \<^verbatim>\<open>None\<close>.  A dictionary is an association list whose
  lookup takes the first binding of a key.  Strings are lists of 8-bit characters, which
  is exact for ASCII text.  A float is kept by its exact value (non-finite floats are
  outside the model).
\<close>

datatype json =
    JNull
  | JBool bool
  | JInt int
  | JFloat real
  | JString string
  | JArray "json list"
  | JObject "(string \<times> json) list"

text \<open>A subscript is a string key or an integer index.\<close>

datatype key = K string | I int

text \<open>
  The exceptions that the module can raise.  The three messages of the locator and the
  three messages of the URL parser are all \<^verbatim>\<open>ValueError\<close> in the source
  (\<^verbatim>\<open>JSONDecodeError\<close> is a subclass of it); they are kept apart by their message.
\<close>

datatype error =
    KeyError key
  | IndexError
  | TypeError
  | AttributeError
  | KeyNotFound string
  | BraceNotFound
  | JSONDecodeError
  | InvalidScheme string
  | InvalidNetloc string
  | InvalidPath string
  | RequestError string

text \<open>\<^verbatim>\<open>xs[i]\<close> on a sequence: a negative index counts from the end.\<close>

definition seq_index :: "'a list \<Rightarrow> int \<Rightarrow> error + 'a" where
  "seq_index xs i =
     (if 0 \<le> i \<and> i < int (length xs) then Inr (xs ! nat i)
      else if i < 0 \<and> - int (length xs) \<le> i then Inr (xs ! nat (int (length xs) + i))
      else Inl IndexError)"

text \<open>\<^verbatim>\<open>v[k]\<close> for a decoded value \<open>v\<close>.\<close>

fun getitem :: "json \<Rightarrow> key \<Rightarrow> error + json" where
  "getitem (JObject kvs) (K s) =
     (case map_of kvs s of None \<Rightarrow> Inl (KeyError (K s)) | Some v \<Rightarrow> Inr v)"
| "getitem (JObject kvs) (I i) = Inl (KeyError (I i))"
| "getitem (JArray xs) (I i) = seq_index xs i"
| "getitem (JArray xs) (K s) = Inl TypeError"
| "getitem (JString s) (I i) =
     (case seq_index s i of Inl e \<Rightarrow> Inl e | Inr c \<Rightarrow> Inr (JString [c]))"
| "getitem (JString s) (K k) = Inl TypeError"
| "getitem JNull k = Inl TypeError"
| "getitem (JBool b) k = Inl TypeError"
| "getitem (JInt n) k = Inl TypeError"
| "getitem (JFloat x) k = Inl TypeError"

text \<open>A chain of subscripts \<^verbatim>\<open>v[k1][k2]...[kn]\<close>, evaluated left to right.\<close>

fun getpath :: "json \<Rightarrow> key list \<Rightarrow> error + json" where
  "getpath v [] = Inr v"
| "getpath v (k # ks) = (case getitem v k of Inl e \<Rightarrow> Inl e | Inr w \<Rightarrow> getpath w ks)"

text \<open>\<^verbatim>\<open>v.get(k, d)\<close>: only a dictionary has the method.\<close>

fun py_get :: "json \<Rightarrow> string \<Rightarrow> json \<Rightarrow> error + json" where
  "py_get (JObject kvs) k d = Inr (case map_of kvs k of None \<Rightarrow> d | Some v \<Rightarrow> v)"
| "py_get v k d = Inl AttributeError"

text \<open>Truth value of a decoded value, as \<^verbatim>\<open>if v\<close> and \<^verbatim>\<open>not v\<close> test it.\<close>

fun truthy :: "json \<Rightarrow> bool" where
  "truthy JNull = False"
| "truthy (JBool b) = b"
| "truthy (JInt n) = (n \<noteq> 0)"
| "truthy (JFloat x) = (x \<noteq> 0)"
| "truthy (JString s) = (s \<noteq> [])"
| "truthy (JArray xs) = (xs \<noteq> [])"
| "truthy (JObject kvs) = (kvs \<noteq> [])"

text \<open>
  \<^verbatim>\<open>for x in v\<close>: a list gives its elements, a string its characters, a dictionary
  its keys; nothing else is iterable.
\<close>

fun py_iter :: "json \<Rightarrow> error + json list" where
  "py_iter (JArray xs) = Inr xs"
| "py_iter (JString s) = Inr (map (\<lambda>c. JString [c]) s)"
| "py_iter (JObject kvs) = Inr (map (\<lambda>kv. JString (fst kv)) kvs)"
| "py_iter v = Inl TypeError"

text \<open>\<^verbatim>\<open>v > 0\<close>: numbers and booleans compare with an integer, nothing else does.\<close>

fun gt_zero :: "json \<Rightarrow> error + bool" where
  "gt_zero (JInt n) = Inr (0 < n)"
| "gt_zero (JFloat x) = Inr (0 < x)"
| "gt_zero (JBool b) = Inr b"
| "gt_zero v = Inl TypeError"

text \<open>Apply a function that may raise to each element in order; the first exception wins.\<close>

fun map_raise :: "('a \<Rightarrow> error + 'b) \<Rightarrow> 'a list \<Rightarrow> error + 'b list" where
  "map_raise f [] = Inr []"
| "map_raise f (x # xs) =
     (case f x of
        Inl e \<Rightarrow> Inl e
      | Inr y \<Rightarrow> (case map_raise f xs of Inl e \<Rightarrow> Inl e | Inr ys \<Rightarrow> Inr (y # ys)))"

text \<open>\<^verbatim>\<open>"".join(strings)\<close>: every item must be a string.\<close>

fun join_empty :: "json list \<Rightarrow> error + string" where
  "join_empty [] = Inr []"
| "join_empty (JString s # vs) =
     (case join_empty vs of Inl e \<Rightarrow> Inl e | Inr t \<Rightarrow> Inr (s @ t))"
| "join_empty (v # vs) = Inl TypeError"

text \<open>\<^verbatim>\<open>s.rstrip(chars)\<close> removes every trailing character that is in \<open>chars\<close>.\<close>

definition rstrip :: "string \<Rightarrow> string \<Rightarrow> string" where
  "rstrip chars s = rev (dropWhile (\<lambda>c. c \<in> set chars) (rev s))"

text \<open>
  \<^verbatim>\<open>s.find(sub, start)\<close>: the least index at or after \<open>start\<close> where \<open>sub\<close>
  occurs, \<open>None\<close> for Python's \<open>-1\<close>.
\<close>

fun find_at :: "string \<Rightarrow> string \<Rightarrow> nat \<Rightarrow> nat option" where
  "find_at sub [] i = (if sub = [] then Some i else None)"
| "find_at sub (c # cs) i = (if prefix sub (c # cs) then Some i else find_at sub cs (Suc i))"

definition str_find :: "string \<Rightarrow> string \<Rightarrow> nat \<Rightarrow> nat option" where
  "str_find s sub start =
     (if length s < start then None else find_at sub (drop start s) start)"

text \<open>\<^verbatim>\<open>sub in s\<close> for strings.\<close>

definition str_contains :: "string \<Rightarrow> string \<Rightarrow> bool" where
  "str_contains sub s = (str_find s sub 0 \<noteq> None)"

text \<open>\<^verbatim>\<open>s.split(sep)\<close> for a one-character separator; the result is never empty.\<close>

fun split_on :: "char \<Rightarrow> string \<Rightarrow> string list" where
  "split_on sep [] = [[]]"
| "split_on sep (c # cs) =
     (if c = sep then [] # split_on sep cs
      else (case split_on sep cs of [] \<Rightarrow> [[c]] | w # ws \<Rightarrow> (c # w) # ws))"

section \<open>Library functions the module calls\<close>

text \<open>
  \<^verbatim>\<open>urllib.parse.unquote\<close>: every \<^verbatim>\<open>%XX\<close> with two hexadecimal digits becomes
  the character with that code; a percent sign not followed by two such digits stays.
  (Python then decodes the bytes as UTF-8; the model is exact when every escape is below
  \<^verbatim>\<open>%80\<close>.)
\<close>

definition hexval :: "char \<Rightarrow> nat option" where
  "hexval c =
     (let n = of_char c :: nat in
      if 48 \<le> n \<and> n \<le> 57 then Some (n - 48)
      else if 65 \<le> n \<and> n \<le> 70 then Some (n - 55)
      else if 97 \<le> n \<and> n \<le> 102 then Some (n - 87)
      else None)"

fun unquote :: "string \<Rightarrow> string" where
  "unquote (c # h1 # h2 # rest) =
     (if c = CHR ''%'' then
        (case (hexval h1, hexval h2) of
           (Some a, Some b) \<Rightarrow> char_of (16 * a + b) # unquote rest
         | _ \<Rightarrow> c # unquote (h1 # h2 # rest))
      else c # unquote (h1 # h2 # rest))"
| "unquote (c # cs) = c # unquote cs"
| "unquote [] = []"

text \<open>
  The first item of \<^verbatim>\<open>re.findall(r"(?<=q=)(.+)", s)\<close>, if there is one: the scan
  goes left to right for a position that has \<^verbatim>\<open>q=\<close> right before it and a
  character other than a line feed at it; the match runs to the next line feed or to
  the end.
\<close>

fun findall_q_first :: "string \<Rightarrow> string option" where
  "findall_q_first (a # b # c # rest) =
     (if a = CHR ''q'' \<and> b = CHR ''='' \<and> c \<noteq> CHR 0x0A
      then Some (takeWhile (\<lambda>x. x \<noteq> CHR 0x0A) (c # rest))
      else findall_q_first (b # c # rest))"
| "findall_q_first s = None"

text \<open>The three components of \<^verbatim>\<open>urlparse(url)\<close> that the module reads.\<close>

record parsed_url =
  scheme :: string
  netloc :: string
  path :: string

text \<open>
  What the module takes from outside: the JSON decoder
  (\<^verbatim>\<open>JSONDecoder().raw_decode\<close>, \<open>None\<close> when it raises, else the value and the
  end index), \<^verbatim>\<open>urlparse\<close>, the text that an f-string gives for a decoded value
  that is not a string, the text of \<^verbatim>\<open>round(vote_ratio * 100, 1)\<close> (floating point
  arithmetic and \<^verbatim>\<open>repr\<close>), the HTTP request with \<^verbatim>\<open>raise_for_status\<close>, and
  the formatted clock.
\<close>

record env =
  raw_decode :: "string \<Rightarrow> (json \<times> nat) option"
  urlparse :: "string \<Rightarrow> parsed_url"
  format_value :: "json \<Rightarrow> string"
  format_percentage :: "json \<Rightarrow> string"
  http_get :: "string \<Rightarrow> error + string"
  utc_now :: string

text \<open>\<^verbatim>\<open>f"{v}"\<close>: a string is inserted as it is.\<close>

definition py_str :: "env \<Rightarrow> json \<Rightarrow> string" where
  "py_str E v = (case v of JString s \<Rightarrow> s | _ \<Rightarrow> format_value E v)"

section \<open>The module\<close>

definition ALLOWED_SCHEMES :: "string set" where
  "ALLOWED_SCHEMES = {''http'', ''https''}"

definition ALLOWED_NETLOCS :: "string set" where
  "ALLOWED_NETLOCS =
     {''youtu.be'', ''m.youtube.com'', ''youtube.com'', ''www.youtube.com'',
      ''www.youtube-nocookie.com''}"

definition encoded_key :: "string \<Rightarrow> string" where
  "encoded_key k = CHR 0x22 # k @ [CHR 0x22, CHR '':'']"

definition extract_json_from_html :: "env \<Rightarrow> string \<Rightarrow> string \<Rightarrow> error + json" where
  "extract_json_from_html E raw k =
     (case str_find raw (encoded_key k) 0 of
        None \<Rightarrow> Inl (KeyNotFound k)
      | Some key_pos \<Rightarrow>
          (case str_find raw ''{'' (key_pos + length (encoded_key k)) of
             None \<Rightarrow> Inl BraceNotFound
           | Some brace_pos \<Rightarrow>
               (case raw_decode E (drop brace_pos raw) of
                  None \<Rightarrow> Inl JSONDecodeError
                | Some (obj, end_pos) \<Rightarrow> Inr obj)))"

definition parse_community_post_url :: "env \<Rightarrow> string \<Rightarrow> error + string" where
  "parse_community_post_url E url =
     (let parsed = urlparse E url in
      if scheme parsed \<notin> ALLOWED_SCHEMES then Inl (InvalidScheme (scheme parsed))
      else if netloc parsed \<notin> ALLOWED_NETLOCS then Inl (InvalidNetloc (netloc parsed))
      else if \<not> str_contains ''/post/'' (path parsed) then Inl (InvalidPath (path parsed))
      else Inr (last (split_on CHR ''/'' (path parsed))))"

definition get_video_link :: "env \<Rightarrow> json \<Rightarrow> error + string option" where
  "get_video_link E post =
     (case getpath post [K ''backstageAttachment'', K ''videoRenderer'', K ''videoId''] of
        Inr video_id \<Rightarrow> Inr (Some (''https://www.youtube.com/watch?v='' @ py_str E video_id))
      | Inl (KeyError k) \<Rightarrow> Inr None
      | Inl e \<Rightarrow> Inl e)"

definition image_url :: "json \<Rightarrow> error + json" where
  "image_url img =
     getpath img [K ''backstageImageRenderer'', K ''image'', K ''thumbnails'', I (- 1), K ''url'']"

definition multi_image_links :: "json \<Rightarrow> error + json list option" where
  "multi_image_links post =
     (case getpath post [K ''backstageAttachment'', K ''postMultiImageRenderer'', K ''images''] of
        Inl e \<Rightarrow> Inl e
      | Inr images \<Rightarrow>
          (case py_iter images of
             Inl e \<Rightarrow> Inl e
           | Inr items \<Rightarrow>
               (case map_raise image_url items of
                  Inl e \<Rightarrow> Inl e
                | Inr links \<Rightarrow> Inr (if links \<noteq> [] then Some links else None))))"

definition get_image_links :: "json \<Rightarrow> error + json list option" where
  "get_image_links post =
     (case getpath post [K ''backstageAttachment'', K ''backstageImageRenderer'', K ''image'',
                         K ''thumbnails'', I (- 1), K ''url''] of
        Inr single_image \<Rightarrow> Inr (Some [single_image])
      | Inl (KeyError k) \<Rightarrow>
          (case multi_image_links post of
             Inl (KeyError k') \<Rightarrow> Inr None
           | r \<Rightarrow> r)
      | Inl e \<Rightarrow> Inl e)"

definition handle_text_content :: "json \<Rightarrow> error + json" where
  "handle_text_content content =
     (case getpath content [K ''navigationEndpoint'', K ''urlEndpoint'', K ''url''] of
        Inr link_redirect \<Rightarrow>
          (case link_redirect of
             JString s \<Rightarrow>
               (case findall_q_first s of
                  Some link_match \<Rightarrow> Inr (JString (unquote link_match))
                | None \<Rightarrow> Inr link_redirect)
           | _ \<Rightarrow> Inl TypeError)
      | Inl (KeyError k) \<Rightarrow> py_get content ''text'' (JString [])
      | Inl IndexError \<Rightarrow> py_get content ''text'' (JString [])
      | Inl e \<Rightarrow> Inl e)"

text \<open>The body of each \<^verbatim>\<open>try\<close> of \<^verbatim>\<open>_get_text_content\<close>, for the key \<open>k\<close>.\<close>

definition text_of_runs :: "json \<Rightarrow> string \<Rightarrow> error + string" where
  "text_of_runs post k =
     (case getpath post [K k, K ''runs''] of
        Inl e \<Rightarrow> Inl e
      | Inr text_runs \<Rightarrow>
          (case py_iter text_runs of
             Inl e \<Rightarrow> Inl e
           | Inr items \<Rightarrow>
               (case map_raise handle_text_content items of
                  Inl e \<Rightarrow> Inl e
                | Inr strings \<Rightarrow> join_empty strings)))"

definition get_text_content :: "json \<Rightarrow> error + string option" where
  "get_text_content post =
     (case text_of_runs post ''contentText'' of
        Inr s \<Rightarrow> Inr (Some s)
      | Inl (KeyError k) \<Rightarrow>
          (case text_of_runs post ''content'' of
             Inr s \<Rightarrow> Inr (Some s)
           | Inl (KeyError k') \<Rightarrow> Inr None
           | Inl e \<Rightarrow> Inl e)
      | Inl e \<Rightarrow> Inl e)"

text \<open>
  \<^verbatim>\<open>choice.get("text", {}).get("runs", [{}])[0].get("text", "")\<close>
\<close>

definition choice_text :: "json \<Rightarrow> error + json" where
  "choice_text choice =
     (case py_get choice ''text'' (JObject []) of
        Inl e \<Rightarrow> Inl e
      | Inr t \<Rightarrow>
          (case py_get t ''runs'' (JArray [JObject []]) of
             Inl e \<Rightarrow> Inl e
           | Inr runs \<Rightarrow>
               (case getitem runs (I 0) of
                  Inl e \<Rightarrow> Inl e
                | Inr r \<Rightarrow> py_get r ''text'' (JString []))))"

text \<open>What one pass of the loop over the choices appends to \<^verbatim>\<open>poll_text\<close>.\<close>

definition poll_item :: "env \<Rightarrow> json \<Rightarrow> error + string" where
  "poll_item E choice =
     (case choice_text choice of
        Inl e \<Rightarrow> Inl e
      | Inr text \<Rightarrow>
          (case py_get choice ''voteRatio'' (JInt 0) of
             Inl e \<Rightarrow> Inl e
           | Inr vote_ratio \<Rightarrow>
               (case gt_zero vote_ratio of
                  Inl e \<Rightarrow> Inl e
                | Inr positive \<Rightarrow>
                    if positive
                    then Inr (py_str E text @ '': '' @ format_percentage E vote_ratio @ ''%, '')
                    else Inr (py_str E text @ '', ''))))"

fun poll_loop :: "env \<Rightarrow> string \<Rightarrow> json list \<Rightarrow> error + string" where
  "poll_loop E poll_text [] = Inr poll_text"
| "poll_loop E poll_text (choice # choices) =
     (case poll_item E choice of
        Inl e \<Rightarrow> Inl e
      | Inr t \<Rightarrow> poll_loop E (poll_text @ t) choices)"

text \<open>The body of the \<^verbatim>\<open>try\<close> of \<^verbatim>\<open>_get_poll_content\<close>.\<close>

definition poll_body :: "env \<Rightarrow> json \<Rightarrow> error + string option" where
  "poll_body E post =
     (case getpath post [K ''backstageAttachment'', K ''pollRenderer''] of
        Inl e \<Rightarrow> Inl e
      | Inr poll \<Rightarrow>
          (case py_get poll ''choices'' (JArray []) of
             Inl e \<Rightarrow> Inl e
           | Inr choices \<Rightarrow>
               if \<not> truthy choices then Inr None
               else
                 (case py_iter choices of
                    Inl e \<Rightarrow> Inl e
                  | Inr items \<Rightarrow>
                      (case poll_loop E ''Poll: '' items of
                         Inl e \<Rightarrow> Inl e
                       | Inr poll_text \<Rightarrow> Inr (Some (rstrip '', '' poll_text))))))"

definition get_poll_content :: "env \<Rightarrow> json \<Rightarrow> error + string option" where
  "get_poll_content E post =
     (case poll_body E post of
        Inl (KeyError k) \<Rightarrow> Inr None
      | r \<Rightarrow> r)"

subsection \<open>The loader class\<close>

record loader =
  post_id :: string
  continue_on_failure :: bool

text \<open>\<^verbatim>\<open>__init__(self, post_id, continue_on_failure=False)\<close>; \<open>None\<close> is the omitted argument.\<close>

definition loader_init :: "string \<Rightarrow> bool option \<Rightarrow> loader" where
  "loader_init pid flag =
     \<lparr>post_id = pid, continue_on_failure = (case flag of None \<Rightarrow> False | Some b \<Rightarrow> b)\<rparr>"

record document =
  page_content :: json
  metadata :: "string \<rightharpoonup> json"

text \<open>An optional string or list as the dictionary value it becomes.\<close>

definition opt_string :: "string option \<Rightarrow> json" where
  "opt_string r = (case r of None \<Rightarrow> JNull | Some s \<Rightarrow> JString s)"

definition opt_list :: "json list option \<Rightarrow> json" where
  "opt_list r = (case r of None \<Rightarrow> JNull | Some xs \<Rightarrow> JArray xs)"

definition parse_post_data ::
  "env \<Rightarrow> loader \<Rightarrow> json \<Rightarrow> string \<Rightarrow> error + (string \<rightharpoonup> json)" where
  "parse_post_data E self post_json post_url =
     (case get_text_content post_json of
        Inl e \<Rightarrow> Inl e
      | Inr text \<Rightarrow>
     (case get_video_link E post_json of
        Inl e \<Rightarrow> Inl e
      | Inr video \<Rightarrow>
     (case get_image_links post_json of
        Inl e \<Rightarrow> Inl e
      | Inr images \<Rightarrow>
     (case get_poll_content E post_json of
        Inl e \<Rightarrow> Inl e
      | Inr poll \<Rightarrow>
     (case getpath post_json [K ''publishedTimeText'', K ''runs'', I 0, K ''text''] of
        Inl e \<Rightarrow> Inl e
      | Inr time_since \<Rightarrow>
          Inr [''post_link'' \<mapsto> JString post_url,
               ''post_id'' \<mapsto> JString (post_id self),
               ''text_content'' \<mapsto> JString (case text of None \<Rightarrow> [] | Some s \<Rightarrow> s),
               ''video_link'' \<mapsto> opt_string video,
               ''image_links'' \<mapsto> opt_list images,
               ''poll_content'' \<mapsto> opt_string poll,
               ''time_of_download'' \<mapsto> JString (utc_now E),
               ''time_since'' \<mapsto> time_since])))))"

definition extract_post_from_html ::
  "env \<Rightarrow> loader \<Rightarrow> string \<Rightarrow> string \<Rightarrow> error + (string \<rightharpoonup> json)" where
  "extract_post_from_html E self html post_url =
     (case extract_json_from_html E html ''backstagePostRenderer'' of
        Inl e \<Rightarrow> Inl e
      | Inr post_json \<Rightarrow>
          if \<not> truthy post_json then
            (case extract_json_from_html E html ''sharedPostRenderer'' of
               Inl e \<Rightarrow> Inl e
             | Inr shared_json \<Rightarrow> parse_post_data E self shared_json post_url)
          else parse_post_data E self post_json post_url)"

text \<open>\<^verbatim>\<open>d.get(k, default)\<close> on the post data.\<close>

definition dict_get :: "(string \<rightharpoonup> json) \<Rightarrow> string \<Rightarrow> json \<Rightarrow> json" where
  "dict_get d k dflt = (case d k of None \<Rightarrow> dflt | Some v \<Rightarrow> v)"

text \<open>\<^verbatim>\<open>if post_data.get(k): metadata[k] = post_data[k]\<close>\<close>

definition copy_if_truthy ::
  "(string \<rightharpoonup> json) \<Rightarrow> string \<Rightarrow> (string \<rightharpoonup> json) \<Rightarrow> (string \<rightharpoonup> json)" where
  "copy_if_truthy post_data k m =
     (if truthy (dict_get post_data k JNull) then m(k \<mapsto> dict_get post_data k JNull) else m)"

definition create_document :: "loader \<Rightarrow> (string \<rightharpoonup> json) \<Rightarrow> document" where
  "create_document self post_data =
     (let text_content = dict_get post_data ''text_content'' (JString []);
          m0 = [''source'' \<mapsto> dict_get post_data ''post_link'' (JString []),
                ''post_id'' \<mapsto> JString (post_id self),
                ''time_since'' \<mapsto> dict_get post_data ''time_since'' (JString []),
                ''time_of_download'' \<mapsto> dict_get post_data ''time_of_download'' (JString [])];
          m1 = copy_if_truthy post_data ''video_link'' m0;
          m2 = copy_if_truthy post_data ''image_links'' m1;
          m3 = copy_if_truthy post_data ''poll_content'' m2
      in \<lparr>page_content = text_content, metadata = m3\<rparr>)"

text \<open>
  \<^verbatim>\<open>_load_post\<close>: the cookie, the headers and the request are the environment's
  \<open>http_get\<close>, which gives the response text or the exception of the request.
\<close>

definition load_post :: "env \<Rightarrow> loader \<Rightarrow> error + document list" where
  "load_post E self =
     (let post_url = ''https://www.youtube.com/post/'' @ post_id self in
      case http_get E post_url of
        Inl e \<Rightarrow> Inl e
      | Inr html \<Rightarrow>
          (case extract_post_from_html E self html post_url of
             Inl e \<Rightarrow> Inl e
           | Inr post_data \<Rightarrow> Inr [create_document self post_data]))"

text \<open>
  \<^verbatim>\<open>load\<close>, with the logger as a list of records that \<^verbatim>\<open>logger.error\<close> extends:
  each record holds the post id and the exception of the message.
\<close>

definition load ::
  "env \<Rightarrow> loader \<Rightarrow> (string \<times> error) list
     \<Rightarrow> (error + document list) \<times> (string \<times> error) list" where
  "load E self logged =
     (case load_post E self of
        Inr docs \<Rightarrow> (Inr docs, logged)
      | Inl e \<Rightarrow>
          if continue_on_failure self then (Inr [], logged @ [(post_id self, e)])
          else (Inl e, logged))"

section \<open>An environment for running the module on examples\<close>

text \<open>
  The general results below hold for every environment.  The examples run the module in
  the environment of this section, which stands for the library on a fragment of its
  inputs: JSON texts without string escapes, fractions and exponents, and URLs of the
  shape \<^verbatim>\<open>scheme://netloc/path?query#fragment\<close> with a lower-case scheme.
\<close>

definition is_ws :: "char \<Rightarrow> bool" where
  "is_ws c = (c = CHR '' '' \<or> c = CHR 0x09 \<or> c = CHR 0x0A \<or> c = CHR 0x0D)"

definition skip_ws :: "string \<Rightarrow> string" where
  "skip_ws s = dropWhile is_ws s"

definition is_digit :: "char \<Rightarrow> bool" where
  "is_digit c = (48 \<le> (of_char c :: nat) \<and> (of_char c :: nat) \<le> 57)"

text \<open>The text of a string after its opening quote, and what follows the closing quote.\<close>

fun scan_string :: "string \<Rightarrow> (string \<times> string) option" where
  "scan_string [] = None"
| "scan_string (c # cs) =
     (if c = CHR 0x22 then Some ([], cs)
      else if c = CHR 0x5C \<or> (of_char c :: nat) < 32 then None
      else (case scan_string cs of None \<Rightarrow> None | Some (t, r) \<Rightarrow> Some (c # t, r)))"

text \<open>An integer: an optional minus sign, then \<^verbatim>\<open>0\<close> or digits that start with 1 to 9.\<close>

definition scan_int :: "string \<Rightarrow> (int \<times> string) option" where
  "scan_int s =
     (let neg = (case s of [] \<Rightarrow> False | c # cs \<Rightarrow> c = CHR ''-'');
          body = (if neg then tl s else s);
          ds = (case body of [] \<Rightarrow> []
                | c # cs \<Rightarrow> if c = CHR ''0'' then [c] else takeWhile is_digit body);
          rest = drop (length ds) body;
          n = foldl (\<lambda>a c. 10 * a + (int (of_char c) - 48)) 0 ds
      in if ds = [] then None
         else if (case rest of [] \<Rightarrow> False | c # cs \<Rightarrow> c \<in> {CHR ''.'', CHR ''e'', CHR ''E''})
         then None
         else Some (if neg then - n else n, rest))"

text \<open>\<^verbatim>\<open>dict(pairs)\<close>: a later pair of a key replaces the value of the earlier one.\<close>

fun dict_set :: "(string \<times> json) list \<Rightarrow> string \<Rightarrow> json \<Rightarrow> (string \<times> json) list" where
  "dict_set [] k v = [(k, v)]"
| "dict_set ((k', v') # kvs) k v =
     (if k' = k then (k, v) # kvs else (k', v') # dict_set kvs k v)"

definition dict_of :: "(string \<times> json) list \<Rightarrow> (string \<times> json) list" where
  "dict_of ps = foldl (\<lambda>d kv. dict_set d (fst kv) (snd kv)) [] ps"

text \<open>
  The scanner: a value at the head of the text, the pairs of an object after the opening
  quote of a key, the items of an array.  The first argument bounds the number of nested
  calls.
\<close>

fun scan_once :: "nat \<Rightarrow> string \<Rightarrow> (json \<times> string) option"
  and scan_pairs :: "nat \<Rightarrow> string \<Rightarrow> ((string \<times> json) list \<times> string) option"
  and scan_items :: "nat \<Rightarrow> string \<Rightarrow> (json list \<times> string) option"
where
  "scan_once 0 s = None"
| "scan_once (Suc n) [] = None"
| "scan_once (Suc n) (c # cs) =
     (if c = CHR 0x22 then
        (case scan_string cs of None \<Rightarrow> None | Some (t, r) \<Rightarrow> Some (JString t, r))
      else if c = CHR ''{'' then
        (case skip_ws cs of
           [] \<Rightarrow> None
         | d # ds \<Rightarrow>
             if d = CHR ''}'' then Some (JObject [], ds)
             else if d = CHR 0x22 then
               (case scan_pairs n ds of
                  None \<Rightarrow> None
                | Some (ps, r) \<Rightarrow> Some (JObject (dict_of ps), r))
             else None)
      else if c = CHR ''['' then
        (case skip_ws cs of
           [] \<Rightarrow> None
         | d # ds \<Rightarrow>
             if d = CHR '']'' then Some (JArray [], ds)
             else
               (case scan_items n (d # ds) of
                  None \<Rightarrow> None
                | Some (vs, r) \<Rightarrow> Some (JArray vs, r)))
      else if prefix ''null'' (c # cs) then Some (JNull, drop 4 (c # cs))
      else if prefix ''true'' (c # cs) then Some (JBool True, drop 4 (c # cs))
      else if prefix ''false'' (c # cs) then Some (JBool False, drop 5 (c # cs))
      else (case scan_int (c # cs) of None \<Rightarrow> None | Some (i, r) \<Rightarrow> Some (JInt i, r)))"
| "scan_pairs 0 s = None"
| "scan_pairs (Suc n) s =
     (case scan_string s of
        None \<Rightarrow> None
      | Some (k, r) \<Rightarrow>
          (case skip_ws r of
             [] \<Rightarrow> None
           | d # ds \<Rightarrow>
               if d \<noteq> CHR '':'' then None
               else
                 (case scan_once n (skip_ws ds) of
                    None \<Rightarrow> None
                  | Some (v, r2) \<Rightarrow>
                      (case skip_ws r2 of
                         [] \<Rightarrow> None
                       | e # es \<Rightarrow>
                           if e = CHR ''}'' then Some ([(k, v)], es)
                           else if e = CHR '','' then
                             (case skip_ws es of
                                [] \<Rightarrow> None
                              | q # qs \<Rightarrow>
                                  if q = CHR 0x22 then
                                    (case scan_pairs n qs of
                                       None \<Rightarrow> None
                                     | Some (ps, r3) \<Rightarrow> Some ((k, v) # ps, r3))
                                  else None)
                           else None))))"
| "scan_items 0 s = None"
| "scan_items (Suc n) s =
     (case scan_once n s of
        None \<Rightarrow> None
      | Some (v, r) \<Rightarrow>
          (case skip_ws r of
             [] \<Rightarrow> None
           | e # es \<Rightarrow>
               if e = CHR '']'' then Some ([v], es)
               else if e = CHR '','' then
                 (case scan_items n (skip_ws es) of
                    None \<Rightarrow> None
                  | Some (vs, r2) \<Rightarrow> Some (v # vs, r2))
               else None))"

text \<open>The decoded value and the index where it ends.\<close>

definition example_raw_decode :: "string \<Rightarrow> (json \<times> nat) option" where
  "example_raw_decode s =
     (case scan_once (Suc (length s)) s of
        None \<Rightarrow> None
      | Some (v, r) \<Rightarrow> Some (v, length s - length r))"

definition example_urlparse :: "string \<Rightarrow> parsed_url" where
  "example_urlparse url =
     (let sch = takeWhile (\<lambda>c. c \<noteq> CHR '':'') url;
          r = drop (length sch) url
      in if prefix ''://'' r then
           (let r2 = drop 3 r;
                nl = takeWhile (\<lambda>c. c \<notin> {CHR ''/'', CHR ''?'', CHR ''#''}) r2;
                r3 = drop (length nl) r2
            in \<lparr>scheme = sch, netloc = nl,
                path = takeWhile (\<lambda>c. c \<notin> {CHR ''?'', CHR ''#''}) r3\<rparr>)
         else \<lparr>scheme = [], netloc = [],
                path = takeWhile (\<lambda>c. c \<notin> {CHR ''?'', CHR ''#''}) url\<rparr>)"

text \<open>Decimal digits of a natural number and of an integer.\<close>

fun digits :: "nat \<Rightarrow> string" where
  "digits n = (if n < 10 then [char_of (48 + n)] else digits (n div 10) @ [char_of (48 + n mod 10)])"

definition int_str :: "int \<Rightarrow> string" where
  "int_str i = (if i < 0 then CHR ''-'' # digits (nat (- i)) else digits (nat i))"

text \<open>The f-string text of \<^verbatim>\<open>None\<close>, a boolean and an integer.\<close>

definition example_format_value :: "json \<Rightarrow> string" where
  "example_format_value v =
     (case v of
        JNull \<Rightarrow> ''None''
      | JBool b \<Rightarrow> (if b then ''True'' else ''False'')
      | JInt i \<Rightarrow> int_str i
      | _ \<Rightarrow> [])"

text \<open>
  The text of \<^verbatim>\<open>round(vote_ratio * 100, 1)\<close>: an integer or a boolean gives an
  integer, a float gives one decimal place (for a positive ratio with at most three
  decimal places).
\<close>

definition example_format_percentage :: "json \<Rightarrow> string" where
  "example_format_percentage v =
     (case v of
        JInt i \<Rightarrow> int_str (i * 100)
      | JBool b \<Rightarrow> int_str (if b then 100 else 0)
      | JFloat x \<Rightarrow>
          (let t = nat (round (x * 1000)) in digits (t div 10) @ ''.'' @ digits (t mod 10))
      | _ \<Rightarrow> [])"

definition example_env :: env where
  "example_env =
     \<lparr>raw_decode = example_raw_decode,
      urlparse = example_urlparse,
      format_value = example_format_value,
      format_percentage = example_format_percentage,
      http_get = (\<lambda>url. Inl (RequestError url)),
      utc_now = ''2023-01-01 12:00:00 UTC''\<rparr>"

text \<open>The example environment with a server that answers every request with \<open>html\<close>.\<close>

definition env_serving :: "string \<Rightarrow> env" where
  "env_serving html = example_env\<lparr>http_get := (\<lambda>url. Inr html)\<rparr>"

section \<open>Example inputs\<close>

definition link_run :: "string \<Rightarrow> json" where
  "link_run url =
     JObject [(''navigationEndpoint'', JObject [(''urlEndpoint'', JObject [(''url'', JString url)])])]"

definition text_run :: "string \<Rightarrow> json" where
  "text_run t = JObject [(''text'', JString t)]"

definition runs_of :: "json list \<Rightarrow> json" where
  "runs_of rs = JObject [(''runs'', JArray rs)]"

definition image_renderer :: "string list \<Rightarrow> json" where
  "image_renderer urls =
     JObject [(''backstageImageRenderer'',
       JObject [(''image'',
         JObject [(''thumbnails'', JArray (map (\<lambda>u. JObject [(''url'', JString u)]) urls))])])]"

definition poll_of :: "json list \<Rightarrow> json" where
  "poll_of choices = JObject [(''pollRenderer'', JObject [(''choices'', JArray choices)])]"

definition choice_of :: "string \<Rightarrow> json" where
  "choice_of t = JObject [(''text'', runs_of [text_run t])]"

definition choice_with_ratio :: "string \<Rightarrow> real \<Rightarrow> json" where
  "choice_with_ratio t x = JObject [(''text'', runs_of [text_run t]), (''voteRatio'', JFloat x)]"

text \<open>A post with a time stamp and, if given, an attachment.\<close>

definition post_with :: "json option \<Rightarrow> json" where
  "post_with attachment =
     JObject ((case attachment of None \<Rightarrow> [] | Some a \<Rightarrow> [(''backstageAttachment'', a)])
              @ [(''publishedTimeText'', runs_of [text_run ''1 day ago''])])"

definition post_empty_thumbnails :: json where
  "post_empty_thumbnails = post_with (Some (image_renderer []))"

definition post_attachment_string :: json where
  "post_attachment_string = post_with (Some (JString ''none''))"



definition post_poll_ratios :: json where
  "post_poll_ratios =
     post_with (Some (poll_of [choice_with_ratio ''A'' 0.4, choice_with_ratio ''B'' 0.6]))"

definition post_poll_comma :: json where
  "post_poll_comma = post_with (Some (poll_of [choice_of ''A'', choice_of ''B,'']))"

definition post_poll_untitled :: json where
  "post_poll_untitled = post_with (Some (poll_of [JObject []]))"

definition post_link_then_text :: json where
  "post_link_then_text =
     JObject [(''contentText'',
                runs_of [link_run ''https://redirect?q=https%3A%2F%2Fexample.com'',
                         text_run '' hello'']),
              (''publishedTimeText'', runs_of [text_run ''1 day ago''])]"

definition post_link_with_more_parameters :: json where
  "post_link_with_more_parameters =
     JObject [(''contentText'',
                runs_of [link_run
                  ''https://www.youtube.com/redirect?q=https%3A%2F%2Fexample.com&v=abc''])]"

definition post_without_time :: json where
  "post_without_time =
     JObject [(''contentText'', runs_of [text_run ''hello'']),
              (''backstageAttachment'',
                 JObject [(''videoRenderer'', JObject [(''videoId'', JString ''abc123'')])])]"

definition example_loader :: "bool \<Rightarrow> loader" where
  "example_loader permissive = \<lparr>post_id = ''TestPost123'', continue_on_failure = permissive\<rparr>"


definition shared_only_html :: string where
  \<open>shared_only_html =
     ''<script>{"sharedPostRenderer":{"content":{"runs":[{"text":"hi"}]},"publishedTimeText":{"runs":[{"text":"1 day ago"}]}}}</script>''\<close>

definition direct_html :: string where
  \<open>direct_html =
     ''<script>{"backstagePostRenderer":{"contentText":{"runs":[{"text":"hi"}]},"publishedTimeText":{"runs":[{"text":"1 day ago"}]}}}</script>''\<close>

section \<open>Notions of the specification\<close>

text \<open>The text \<open>sub\<close> occurs in \<open>s\<close> at index \<open>i\<close>.\<close>

definition occurs_at :: "string \<Rightarrow> string \<Rightarrow> nat \<Rightarrow> bool" where
  "occurs_at sub s i = (i \<le> length s \<and> prefix sub (drop i s))"

text \<open>The first occurrence of \<open>sub\<close> in \<open>s\<close> at or after \<open>start\<close> is at index \<open>i\<close>.\<close>

definition first_occurrence_from :: "string \<Rightarrow> string \<Rightarrow> nat \<Rightarrow> nat \<Rightarrow> bool" where
  "first_occurrence_from sub s start i =
     (start \<le> i \<and> occurs_at sub s i \<and> (\<forall>j. start \<le> j \<and> j < i \<longrightarrow> \<not> occurs_at sub s j))"


section \<open>Searching in strings\<close>

lemma find_at_None_iff: "find_at sub s i = None \<longleftrightarrow> \<not> sublist sub s"
  by (induction s arbitrary: i) (auto simp: sublist_Cons_right)

lemma find_at_Some_iff:
  "find_at sub s i = Some r \<longleftrightarrow>
     (\<exists>j. r = i + j \<and> j \<le> length s \<and> prefix sub (drop j s) \<and> (\<forall>j'<j. \<not> prefix sub (drop j' s)))"
proof (induction s arbitrary: i r)
  case Nil
  then show ?case by auto
next
  case (Cons c cs)
  show ?case
  proof (cases "prefix sub (c # cs)")
    case True
    then show ?thesis
      by (auto intro!: exI[of _ 0]) (metis drop0 not_gr_zero)
  next
    case False
    have "find_at sub (c # cs) i = Some r \<longleftrightarrow> find_at sub cs (Suc i) = Some r"
      using False by simp
    also have "\<dots> \<longleftrightarrow> (\<exists>j. r = Suc i + j \<and> j \<le> length cs \<and> prefix sub (drop j cs) \<and>
        (\<forall>j'<j. \<not> prefix sub (drop j' cs)))"
      by (rule Cons.IH)
    also have "\<dots> \<longleftrightarrow> (\<exists>j. r = i + j \<and> j \<le> length (c # cs) \<and> prefix sub (drop j (c # cs)) \<and>
        (\<forall>j'<j. \<not> prefix sub (drop j' (c # cs))))" (is "?L \<longleftrightarrow> ?R")
    proof
      assume ?L
      then obtain j where j: "r = Suc i + j" "j \<le> length cs" "prefix sub (drop j cs)"
        "\<forall>j'<j. \<not> prefix sub (drop j' cs)" by blast
      have "\<forall>j'<Suc j. \<not> prefix sub (drop j' (c # cs))"
      proof (intro allI impI)
        fix j' assume "j' < Suc j"
        then show "\<not> prefix sub (drop j' (c # cs))"
          using False j(4) by (cases j') auto
      qed
      with j show ?R by (intro exI[of _ "Suc j"]) auto
    next
      assume ?R
      then obtain j where j: "r = i + j" "j \<le> length (c # cs)" "prefix sub (drop j (c # cs))"
        "\<forall>j'<j. \<not> prefix sub (drop j' (c # cs))" by blast
      from j(3) False obtain k where k: "j = Suc k" by (cases j) auto
      have "\<forall>j'<k. \<not> prefix sub (drop j' cs)"
      proof (intro allI impI)
        fix j' assume "j' < k"
        then have "Suc j' < j" using k by simp
        with j(4) show "\<not> prefix sub (drop j' cs)" by fastforce
      qed
      with j k show ?L by (intro exI[of _ k]) auto
    qed
    finally show ?thesis .
  qed
qed

lemma str_find_Some_iff:
  "str_find s sub start = Some r \<longleftrightarrow> first_occurrence_from sub s start r"
proof (cases "length s < start")
  case True
  then show ?thesis
    by (auto simp: str_find_def first_occurrence_from_def occurs_at_def)
next
  case False
  then have le: "start \<le> length s" by simp
  show ?thesis
  proof
    assume "str_find s sub start = Some r"
    then obtain j where j: "r = start + j" "j \<le> length s - start" "prefix sub (drop (start + j) s)"
      "\<forall>j'<j. \<not> prefix sub (drop (start + j') s)"
      using le by (auto simp: str_find_def find_at_Some_iff add.commute)
    have "\<forall>i. start \<le> i \<and> i < r \<longrightarrow> \<not> occurs_at sub s i"
    proof (intro allI impI)
      fix i assume "start \<le> i \<and> i < r"
      then have "i - start < j" "i = start + (i - start)" using j(1) by auto
      then show "\<not> occurs_at sub s i" using j(4) by (metis occurs_at_def)
    qed
    then show "first_occurrence_from sub s start r"
      using j le by (auto simp: first_occurrence_from_def occurs_at_def)
  next
    assume a: "first_occurrence_from sub s start r"
    then have r: "start \<le> r" "r \<le> length s" "prefix sub (drop r s)"
      and m: "\<And>i. start \<le> i \<Longrightarrow> i < r \<Longrightarrow> \<not> prefix sub (drop i s)"
      by (auto simp: first_occurrence_from_def occurs_at_def)
    have "\<exists>j. r = start + j \<and> j \<le> length (drop start s) \<and> prefix sub (drop j (drop start s)) \<and>
        (\<forall>j'<j. \<not> prefix sub (drop j' (drop start s)))"
      using r m by (intro exI[of _ "r - start"]) (auto simp: add.commute)
    then show "str_find s sub start = Some r"
      using le by (simp add: str_find_def find_at_Some_iff)
  qed
qed

lemma str_find_None_iff:
  "str_find s sub start = None \<longleftrightarrow> (\<forall>i. start \<le> i \<longrightarrow> \<not> occurs_at sub s i)"
proof
  assume n: "str_find s sub start = None"
  show "\<forall>i. start \<le> i \<longrightarrow> \<not> occurs_at sub s i"
  proof (intro allI impI notI)
    fix i assume i: "start \<le> i" "occurs_at sub s i"
    define P where "P = (\<lambda>k. start \<le> k \<and> occurs_at sub s k)"
    have "P i" using i by (simp add: P_def)
    define m where "m = (LEAST k. P k)"
    have "P m" unfolding m_def using \<open>P i\<close> by (rule LeastI)
    moreover have "\<And>k. k < m \<Longrightarrow> \<not> P k" unfolding m_def by (rule not_less_Least)
    ultimately have "first_occurrence_from sub s start m"
      unfolding first_occurrence_from_def P_def by blast
    then have "str_find s sub start = Some m" by (rule str_find_Some_iff[THEN iffD2])
    then show False using n by simp
  qed
next
  assume "\<forall>i. start \<le> i \<longrightarrow> \<not> occurs_at sub s i"
  then have "\<And>r. \<not> first_occurrence_from sub s start r"
    by (auto simp: first_occurrence_from_def)
  then have "\<And>r. str_find s sub start \<noteq> Some r"
    unfolding str_find_Some_iff by simp
  then show "str_find s sub start = None"
    by (cases "str_find s sub start") auto
qed

lemma occurs_iff_sublist: "(\<exists>i. occurs_at sub s i) \<longleftrightarrow> sublist sub s"
proof
  assume "\<exists>i. occurs_at sub s i"
  then obtain i where "prefix sub (drop i s)" by (auto simp: occurs_at_def)
  then obtain t where "drop i s = sub @ t" by (auto simp: prefix_def)
  then have "s = take i s @ sub @ t" by (metis append_take_drop_id)
  then show "sublist sub s" unfolding sublist_def by blast
next
  assume "sublist sub s"
  then obtain p t where s: "s = p @ sub @ t" unfolding sublist_def by blast
  then have "occurs_at sub s (length p)" by (simp add: occurs_at_def)
  then show "\<exists>i. occurs_at sub s i" ..
qed

lemma str_find_0_None_iff: "str_find s sub 0 = None \<longleftrightarrow> \<not> sublist sub s"
  using occurs_iff_sublist[of sub s] by (auto simp add: str_find_None_iff)

lemma str_contains_iff_sublist: "str_contains sub s \<longleftrightarrow> sublist sub s"
  by (simp add: str_contains_def str_find_0_None_iff)

lemmas example_defs =
  link_run_def text_run_def runs_of_def image_renderer_def poll_of_def choice_of_def
  choice_with_ratio_def post_with_def

section \<open>The post extraction and the two marker keys\<close>

lemma extract_post_from_html_needs_direct_marker:
  assumes "\<not> sublist (encoded_key ''backstagePostRenderer'') html"
  shows "extract_post_from_html E self html url = Inl (KeyNotFound ''backstagePostRenderer'')"
proof -
  have "str_find html (encoded_key ''backstagePostRenderer'') 0 = None"
    using assms by (simp add: str_find_0_None_iff)
  then show ?thesis
    by (simp add: extract_post_from_html_def extract_json_from_html_def)
qed

lemma shared_only_html_decodes:
  "extract_json_from_html example_env shared_only_html ''sharedPostRenderer'' =
     Inr (JObject [(''content'', runs_of [text_run ''hi'']),
                   (''publishedTimeText'', runs_of [text_run ''1 day ago''])])"
  by code_simp

text \<open>
  C1.  The specification says: when the direct-post marker key does not occur in the blob, the post
  extraction tries the repost marker key before giving up, and it fails with the
  not-found error only when neither key occurs.  The code does not: in a page that holds
  only the repost marker, with a complete object after it (see
  \<open>shared_only_html_decodes\<close>), the extraction stops with the not-found error of the
  direct-post key, in every environment; the second lookup is reached only when the
  first one returned an empty object.
\<close>

theorem extract_post_from_html_shared_only:
  "str_contains (encoded_key ''sharedPostRenderer'') shared_only_html \<and>
   extract_post_from_html E self shared_only_html url = Inl (KeyNotFound ''backstagePostRenderer'')"
  by (simp add: str_contains_def extract_post_from_html_def extract_json_from_html_def
      encoded_key_def str_find_def shared_only_html_def)

section \<open>The URL validator\<close>

lemma split_on_not_Nil: "split_on sep s \<noteq> []"
  by (induction s) (auto split: list.splits)

lemma split_on_without_sep: "sep \<notin> set s \<Longrightarrow> split_on sep s = [s]"
  by (induction s) auto

lemma length_split_on: "length (split_on sep s) = Suc (length (filter (\<lambda>c. c = sep) s))"
  by (induction s) (auto split: list.splits)

lemma last_split_on_append:
  "last (split_on sep (xs @ sep # ys)) = last (split_on sep ys)"
proof (induction xs)
  case Nil
  then show ?case by (simp add: split_on_not_Nil)
next
  case (Cons x xs)
  have "length (split_on sep (xs @ sep # ys)) \<ge> 2"
    by (simp add: length_split_on)
  then obtain w v ws where "split_on sep (xs @ sep # ys) = w # v # ws"
    by (cases "split_on sep (xs @ sep # ys)"; cases "tl (split_on sep (xs @ sep # ys))") auto
  with Cons show ?case by auto
qed

lemma parse_community_post_url_errors:
  "scheme (urlparse E url) \<notin> ALLOWED_SCHEMES \<Longrightarrow>
     parse_community_post_url E url = Inl (InvalidScheme (scheme (urlparse E url)))"
  "scheme (urlparse E url) \<in> ALLOWED_SCHEMES \<Longrightarrow> netloc (urlparse E url) \<notin> ALLOWED_NETLOCS \<Longrightarrow>
     parse_community_post_url E url = Inl (InvalidNetloc (netloc (urlparse E url)))"
  "scheme (urlparse E url) \<in> ALLOWED_SCHEMES \<Longrightarrow> netloc (urlparse E url) \<in> ALLOWED_NETLOCS \<Longrightarrow>
   \<not> sublist ''/post/'' (path (urlparse E url)) \<Longrightarrow>
     parse_community_post_url E url = Inl (InvalidPath (path (urlparse E url)))"
  by (simp_all add: parse_community_post_url_def Let_def str_contains_iff_sublist)

lemma parse_community_post_url_final_segment:
  assumes "scheme (urlparse E url) \<in> ALLOWED_SCHEMES"
    and "netloc (urlparse E url) \<in> ALLOWED_NETLOCS"
    and "path (urlparse E url) = pre @ ''/post/'' @ pid"
    and "CHR ''/'' \<notin> set pid"
  shows "parse_community_post_url E url = Inr pid"
proof -
  have "sublist ''/post/'' (path (urlparse E url))"
    unfolding assms(3) sublist_def by blast
  moreover have "last (split_on CHR ''/'' (path (urlparse E url))) = pid"
  proof -
    have "path (urlparse E url) = (pre @ ''/post'') @ CHR ''/'' # pid"
      by (simp add: assms(3))
    then have "last (split_on CHR ''/'' (path (urlparse E url))) = last (split_on CHR ''/'' pid)"
      by (simp only: last_split_on_append)
    also have "\<dots> = pid"
      using assms(4) by (simp add: split_on_without_sep)
    finally show ?thesis .
  qed
  ultimately show ?thesis
    using assms(1,2) by (simp add: parse_community_post_url_def Let_def str_contains_iff_sublist)
qed

lemma parse_community_post_url_tests:
  "parse_community_post_url example_env ''https://www.youtube.com/post/UgkxCWeKPiIOLsnh_5a0mpHWywRz''
     = Inr ''UgkxCWeKPiIOLsnh_5a0mpHWywRz''"
  "parse_community_post_url example_env ''https://m.youtube.com/post/PostID789'' = Inr ''PostID789''"
  "parse_community_post_url example_env ''https://www.youtube.com/watch?v=abc123'' = Inl (InvalidPath ''/watch'')"
  "parse_community_post_url example_env ''https://example.com/post/PostID'' = Inl (InvalidNetloc ''example.com'')"
  "parse_community_post_url example_env ''ftp://youtube.com/post/PostID'' = Inl (InvalidScheme ''ftp'')"
  by code_simp+

text \<open>
  C3.  The specification says: for every URL with an allowed scheme and host whose path contains a
  \<^verbatim>\<open>/post/<id>\<close> segment the validator returns exactly the id, and a URL that fails
  the scheme, host or path check gets the error of that check.  The errors are as stated
  (\<open>parse_community_post_url_errors\<close>), and the id is returned when the segment ends
  the path (\<open>parse_community_post_url_final_segment\<close>).  But the code returns what
  follows the last slash of the path, which is not the id when the segment is followed by
  a slash: the empty text for a trailing slash, the later segment otherwise.  The
  docstring promises the post id for a valid URL and \<^verbatim>\<open>ValueError\<close> otherwise.
\<close>

theorem parse_community_post_url_not_last_segment:
  "urlparse example_env ''https://www.youtube.com/post/UgkxCWeKPiIOLsnh_5a0mpHWywRz/''
     = \<lparr>scheme = ''https'', netloc = ''www.youtube.com'',
        path = ''/post/UgkxCWeKPiIOLsnh_5a0mpHWywRz/''\<rparr> \<and>
   parse_community_post_url example_env
     ''https://www.youtube.com/post/UgkxCWeKPiIOLsnh_5a0mpHWywRz/'' = Inr [] \<and>
   urlparse example_env ''https://www.youtube.com/post/UgkxCWeKPiIOLsnh_5a0mpHWywRz/about''
     = \<lparr>scheme = ''https'', netloc = ''www.youtube.com'',
        path = ''/post/UgkxCWeKPiIOLsnh_5a0mpHWywRz/about''\<rparr> \<and>
   parse_community_post_url example_env
     ''https://www.youtube.com/post/UgkxCWeKPiIOLsnh_5a0mpHWywRz/about'' = Inr ''about''"
  by code_simp

section \<open>Sub-structures of another shape\<close>

text \<open>
  C4.  The specification says: the record builder and the field extractors never raise for missing or
  reshaped optional sub-structures, not even for an image attachment whose thumbnail
  sequence is empty or for an attachment bound to a value that is not a mapping.  The
  extractors catch \<^verbatim>\<open>KeyError\<close> only: the empty thumbnail sequence raises
  \<^verbatim>\<open>IndexError\<close> and the attachment bound to a string raises
  \<^verbatim>\<open>TypeError\<close>, in the extractor and so in the record builder, although the
  required time stamp is present in both posts.
\<close>

theorem optional_substructures_raise:
  "get_image_links post_empty_thumbnails = Inl IndexError \<and>
   parse_post_data E self post_empty_thumbnails url = Inl IndexError \<and>
   get_video_link E post_attachment_string = Inl TypeError \<and>
   parse_post_data E self post_attachment_string url = Inl TypeError"
  by (simp add: post_empty_thumbnails_def post_attachment_string_def example_defs
      parse_post_data_def get_text_content_def text_of_runs_def get_video_link_def
      get_image_links_def seq_index_def)

section \<open>The poll extractor\<close>

lemma get_poll_content_ratios:
  "get_poll_content example_env post_poll_ratios = Inr (Some ''Poll: A: 40.0%, B: 60.0%'')"
  by code_simp

text \<open>
  C6.  The specification says: for a poll with at least one choice the result is \<^verbatim>\<open>"Poll: "\<close>
  followed by the choices joined with \<^verbatim>\<open>", "\<close>, where a choice without a positive
  vote ratio contributes only its text.  The example of the specification holds
  (\<open>get_poll_content_ratios\<close>).  But the code removes the last separator with
  \<^verbatim>\<open>rstrip(", ")\<close>, which removes every trailing comma and blank: for the choices
  \<^verbatim>\<open>A\<close> and \<^verbatim>\<open>B,\<close> the comma of the second choice is lost, and for one choice
  without a text (the code's own default) the blank of the heading is lost too.
\<close>

theorem get_poll_content_strips_choice_text:
  "get_poll_content E post_poll_comma = Inr (Some ''Poll: A, B'') \<and>
   get_poll_content E post_poll_untitled = Inr (Some ''Poll:'')"
  by (simp add: post_poll_comma_def post_poll_untitled_def example_defs get_poll_content_def
      poll_body_def poll_item_def choice_text_def seq_index_def py_str_def rstrip_def)

section \<open>The text extractor\<close>

lemma get_text_content_link_then_text:
  "get_text_content post_link_then_text = Inr (Some ''https://example.com hello'')"
  by code_simp

text \<open>
  C7.  The specification says: a link run contributes the percent-decoded value of the \<^verbatim>\<open>q=\<close>
  parameter of the redirect URL.  The example of the specification holds
  (\<open>get_text_content_link_then_text\<close>).  But when another parameter follows
  \<^verbatim>\<open>q\<close>, the code keeps it: for the redirect
  \<^verbatim>\<open>https://www.youtube.com/redirect?q=https%3A%2F%2Fexample.com&v=abc\<close> the value
  of the parameter is \<^verbatim>\<open>https://example.com\<close>, and the text is that followed by
  \<^verbatim>\<open>&v=abc\<close>.  The comment in the code says that the actual URL is extracted.
\<close>

theorem get_text_content_keeps_later_parameters:
  "get_text_content post_link_with_more_parameters = Inr (Some ''https://example.com&v=abc'')"
  by code_simp

section \<open>The error policy of load\<close>

lemma load_post_shared_only:
  "load_post (env_serving shared_only_html) (example_loader b) = Inl (KeyNotFound ''backstagePostRenderer'')"
  by (simp add: load_post_def env_serving_def extract_post_from_html_def
      extract_json_from_html_def encoded_key_def str_find_def shared_only_html_def)

text \<open>
  C9.  Whatever exception the pipeline of a post raises, \<^verbatim>\<open>load\<close> raises the same
  exception and logs nothing when \<^verbatim>\<open>continue_on_failure\<close> is false, which is the
  default of the constructor; when it is true, \<^verbatim>\<open>load\<close> returns the empty list and
  logs one record with the post id and the exception.  In both cases no document is
  returned.
\<close>

theorem load_error_policy:
  assumes "load_post E self = Inl e"
  shows "(\<not> continue_on_failure self \<longrightarrow> load E self logged = (Inl e, logged)) \<and>
         (continue_on_failure self \<longrightarrow>
            load E self logged = (Inr [], logged @ [(post_id self, e)])) \<and>
         (\<forall>docs. fst (load E self logged) = Inr docs \<longrightarrow> docs = []) \<and>
         \<not> continue_on_failure (loader_init pid None)"
  using assms by (simp add: load_def loader_init_def)

theorem load_error_policy_witness:
  "load (env_serving shared_only_html) (example_loader False) [] =
     (Inl (KeyNotFound ''backstagePostRenderer''), []) \<and>
   load (env_serving shared_only_html) (example_loader True) [] =
     (Inr [], [(''TestPost123'', KeyNotFound ''backstagePostRenderer'')])"
  using load_error_policy[OF load_post_shared_only[of False], of "[]"]
        load_error_policy[OF load_post_shared_only[of True], of "[]"]
  by (simp add: example_loader_def)


section \<open>The JSON locator\<close>









section \<open>The destination of a link run\<close>







section \<open>The image links\<close>


lemma getpath_append:
  "getpath v (p @ q) = (case getpath v p of Inl e \<Rightarrow> Inl e | Inr w \<Rightarrow> getpath w q)"
  by (induction p arbitrary: v) (auto split: sum.splits)










section \<open>The record builder and the document\<close>

lemma getitem_error_kinds:
  "getitem v k = Inl e \<Longrightarrow> (\<exists>k'. e = KeyError k') \<or> e = IndexError \<or> e = TypeError"
  by (cases v; cases k) (auto simp: seq_index_def split: option.splits if_splits sum.splits)

lemma getpath_error_kinds:
  "getpath v p = Inl e \<Longrightarrow> (\<exists>k'. e = KeyError k') \<or> e = IndexError \<or> e = TypeError"
proof (induction p arbitrary: v)
  case Nil
  then show ?case by simp
next
  case (Cons k p)
  show ?case
  proof (cases "getitem v k")
    case (Inl e')
    then have "e' = e" using Cons.prems by simp
    then show ?thesis using Inl getitem_error_kinds by blast
  next
    case (Inr w)
    then have "getpath w p = Inl e" using Cons.prems by simp
    then show ?thesis by (rule Cons.IH)
  qed
qed

lemma getpath_prefix_error: "getpath v p = Inl e \<Longrightarrow> getpath v (p @ q) = Inl e"
  by (simp add: getpath_append)

lemma parse_post_data_Inr:
  assumes "parse_post_data E self post url = Inr d"
  shows "\<exists>tc video images poll.
           get_text_content post = Inr tc \<and> get_video_link E post = Inr video \<and>
           get_image_links post = Inr images \<and> get_poll_content E post = Inr poll \<and>
           d ''video_link'' = Some (opt_string video) \<and>
           d ''image_links'' = Some (opt_list images) \<and>
           d ''poll_content'' = Some (opt_string poll)"
  using assms by (auto simp: parse_post_data_def split: sum.splits)

lemma metadata_optional_keys:
  "metadata (create_document self d) ''video_link'' =
     (if truthy (dict_get d ''video_link'' JNull) then Some (dict_get d ''video_link'' JNull) else None)"
  "metadata (create_document self d) ''image_links'' =
     (if truthy (dict_get d ''image_links'' JNull) then Some (dict_get d ''image_links'' JNull) else None)"
  "metadata (create_document self d) ''poll_content'' =
     (if truthy (dict_get d ''poll_content'' JNull) then Some (dict_get d ''poll_content'' JNull) else None)"
  by (simp_all add: create_document_def Let_def copy_if_truthy_def)

lemma get_video_link_absent:
  assumes "getpath post [K ''backstageAttachment'', K ''videoRenderer'', K ''videoId''] = Inl e"
    and "get_video_link E post = Inr v"
  shows "v = None"
  using assms by (auto simp: get_video_link_def split: error.splits)

lemma get_image_links_absent:
  assumes "getpath post [K ''backstageAttachment'', K ''backstageImageRenderer''] = Inl e1"
    and "getpath post [K ''backstageAttachment'', K ''postMultiImageRenderer''] = Inl e2"
    and "get_image_links post = Inr i"
  shows "i = None"
proof -
  have "getpath post ([K ''backstageAttachment'', K ''backstageImageRenderer'']
          @ [K ''image'', K ''thumbnails'', I (- 1), K ''url'']) = Inl e1"
    using assms(1) by (rule getpath_prefix_error)
  then have s: "getpath post [K ''backstageAttachment'', K ''backstageImageRenderer'', K ''image'',
      K ''thumbnails'', I (- 1), K ''url''] = Inl e1" by simp
  have "getpath post ([K ''backstageAttachment'', K ''postMultiImageRenderer''] @ [K ''images''])
          = Inl e2"
    using assms(2) by (rule getpath_prefix_error)
  then have "getpath post [K ''backstageAttachment'', K ''postMultiImageRenderer'', K ''images'']
      = Inl e2" by simp
  then have m: "multi_image_links post = Inl e2" by (simp add: multi_image_links_def)
  show ?thesis
    using assms(3) s m by (cases e1; cases e2) (simp_all add: get_image_links_def)
qed

lemma get_poll_content_absent:
  assumes "getpath post [K ''backstageAttachment'', K ''pollRenderer''] = Inl e"
    and "get_poll_content E post = Inr p"
  shows "p = None"
proof -
  have "poll_body E post = Inl e" using assms(1) by (simp add: poll_body_def)
  then show ?thesis using assms(2) by (cases e) (simp_all add: get_poll_content_def)
qed

lemma post_without_time_shape:
  "getpath post_without_time [K ''publishedTimeText'', K ''runs'', I 0, K ''text'']
     = Inl (KeyError (K ''publishedTimeText''))"
  "\<exists>t v i p. get_text_content post_without_time = Inr t \<and>
     get_video_link example_env post_without_time = Inr v \<and>
     get_image_links post_without_time = Inr i \<and>
     get_poll_content example_env post_without_time = Inr p"
  by (simp_all add: post_without_time_def example_defs get_text_content_def text_of_runs_def
      handle_text_content_def get_video_link_def get_image_links_def multi_image_links_def
      get_poll_content_def poll_body_def)

lemma post_with_time_only_shape:
  "\<exists>d. parse_post_data example_env (example_loader False) (post_with None) ''u'' = Inr d"
  "\<exists>e. getpath (post_with None) [K ''backstageAttachment'', K ''videoRenderer'', K ''videoId''] = Inl e"
  "(\<exists>e. getpath (post_with None) [K ''backstageAttachment'', K ''backstageImageRenderer''] = Inl e) \<and>
   (\<exists>e. getpath (post_with None) [K ''backstageAttachment'', K ''postMultiImageRenderer''] = Inl e)"
  "\<exists>e. getpath (post_with None) [K ''backstageAttachment'', K ''pollRenderer''] = Inl e"
  by (simp_all add: example_defs parse_post_data_def get_text_content_def text_of_runs_def
      get_video_link_def get_image_links_def multi_image_links_def
      get_poll_content_def poll_body_def seq_index_def)

text \<open>
  C5.  For every decoded post object: when the lookup of the time stamp
  (\<^verbatim>\<open>publishedTimeText\<close>, \<^verbatim>\<open>runs\<close>, the first run, \<^verbatim>\<open>text\<close>) fails, the
  record builder fails; when the four extractors return, it fails with the exception of
  that lookup, which is a \<^verbatim>\<open>KeyError\<close> for a missing key, an \<^verbatim>\<open>IndexError\<close>
  for an empty list of runs, or a \<^verbatim>\<open>TypeError\<close>.  When the record builder returns
  and the lookup of the video, of both image renderers, or of the poll fails, the document
  built from the record has no \<^verbatim>\<open>video_link\<close>, \<^verbatim>\<open>image_links\<close>,
  \<^verbatim>\<open>poll_content\<close> key in its metadata; and a value stored under one of these keys
  is never \<^verbatim>\<open>None\<close> or empty.
\<close>

theorem parse_post_data_time_required_optional_omitted:
  "(\<forall>e. getpath post [K ''publishedTimeText'', K ''runs'', I 0, K ''text''] = Inl e \<longrightarrow>
      (\<exists>e'. parse_post_data E self post url = Inl e') \<and>
      ((\<exists>t v i p. get_text_content post = Inr t \<and> get_video_link E post = Inr v \<and>
                  get_image_links post = Inr i \<and> get_poll_content E post = Inr p) \<longrightarrow>
         parse_post_data E self post url = Inl e) \<and>
      ((\<exists>k. e = KeyError k) \<or> e = IndexError \<or> e = TypeError)) \<and>
   (\<forall>d. parse_post_data E self post url = Inr d \<longrightarrow>
      ((\<exists>e. getpath post [K ''backstageAttachment'', K ''videoRenderer'', K ''videoId''] = Inl e) \<longrightarrow>
         ''video_link'' \<notin> dom (metadata (create_document self d))) \<and>
      ((\<exists>e. getpath post [K ''backstageAttachment'', K ''backstageImageRenderer''] = Inl e) \<and>
       (\<exists>e. getpath post [K ''backstageAttachment'', K ''postMultiImageRenderer''] = Inl e) \<longrightarrow>
         ''image_links'' \<notin> dom (metadata (create_document self d))) \<and>
      ((\<exists>e. getpath post [K ''backstageAttachment'', K ''pollRenderer''] = Inl e) \<longrightarrow>
         ''poll_content'' \<notin> dom (metadata (create_document self d))) \<and>
      (\<forall>k v. k \<in> {''video_link'', ''image_links'', ''poll_content''} \<and>
             metadata (create_document self d) k = Some v \<longrightarrow> truthy v))"
proof (intro conjI allI impI)
  fix e
  assume t: "getpath post [K ''publishedTimeText'', K ''runs'', I 0, K ''text''] = Inl e"
  then show "\<exists>e'. parse_post_data E self post url = Inl e'"
    by (auto simp: parse_post_data_def split: sum.splits)
  show "(\<exists>k. e = KeyError k) \<or> e = IndexError \<or> e = TypeError"
    using t by (rule getpath_error_kinds)
  assume "\<exists>t v i p. get_text_content post = Inr t \<and> get_video_link E post = Inr v \<and>
            get_image_links post = Inr i \<and> get_poll_content E post = Inr p"
  then show "parse_post_data E self post url = Inl e"
    using t by (auto simp: parse_post_data_def)
next
  fix d
  assume d: "parse_post_data E self post url = Inr d"
  then obtain tc video images poll where r:
    "get_video_link E post = Inr video" "get_image_links post = Inr images"
    "get_poll_content E post = Inr poll"
    "d ''video_link'' = Some (opt_string video)"
    "d ''image_links'' = Some (opt_list images)"
    "d ''poll_content'' = Some (opt_string poll)"
    using parse_post_data_Inr by blast
  {
    assume "\<exists>e. getpath post [K ''backstageAttachment'', K ''videoRenderer'', K ''videoId''] = Inl e"
    then have "video = None" using r(1) get_video_link_absent by blast
    then show "''video_link'' \<notin> dom (metadata (create_document self d))"
      using r(4) by (simp add: domIff metadata_optional_keys dict_get_def opt_string_def)
  }
  {
    assume "(\<exists>e. getpath post [K ''backstageAttachment'', K ''backstageImageRenderer''] = Inl e) \<and>
       (\<exists>e. getpath post [K ''backstageAttachment'', K ''postMultiImageRenderer''] = Inl e)"
    then have "images = None" using r(2) get_image_links_absent by blast
    then show "''image_links'' \<notin> dom (metadata (create_document self d))"
      using r(5) by (simp add: domIff metadata_optional_keys dict_get_def opt_list_def)
  }
  {
    assume "\<exists>e. getpath post [K ''backstageAttachment'', K ''pollRenderer''] = Inl e"
    then have "poll = None" using r(3) get_poll_content_absent by blast
    then show "''poll_content'' \<notin> dom (metadata (create_document self d))"
      using r(6) by (simp add: domIff metadata_optional_keys dict_get_def opt_string_def)
  }
  {
    fix k v
    assume "k \<in> {''video_link'', ''image_links'', ''poll_content''} \<and>
             metadata (create_document self d) k = Some v"
    then show "truthy v"
      by (auto simp: metadata_optional_keys split: if_splits)
  }
qed

theorem parse_post_data_time_required_optional_omitted_witness:
  "parse_post_data example_env (example_loader False) post_without_time ''u''
     = Inl (KeyError (K ''publishedTimeText'')) \<and>
   (case parse_post_data example_env (example_loader False) (post_with None) ''u'' of
      Inl e \<Rightarrow> False
    | Inr d \<Rightarrow>
        ''video_link'' \<notin> dom (metadata (create_document (example_loader False) d)) \<and>
        ''image_links'' \<notin> dom (metadata (create_document (example_loader False) d)) \<and>
        ''poll_content'' \<notin> dom (metadata (create_document (example_loader False) d)))"
proof -
  note t = parse_post_data_time_required_optional_omitted
    [of post_without_time example_env "example_loader False" "''u''",
     THEN conjunct1, rule_format, OF post_without_time_shape(1)]
  have 1: "parse_post_data example_env (example_loader False) post_without_time ''u''
     = Inl (KeyError (K ''publishedTimeText''))"
    by (rule t[THEN conjunct2, THEN conjunct1, rule_format, OF post_without_time_shape(2)])
  obtain d where d: "parse_post_data example_env (example_loader False) (post_with None) ''u'' = Inr d"
    using post_with_time_only_shape(1) by blast
  note o = parse_post_data_time_required_optional_omitted
    [of "post_with None" example_env "example_loader False" "''u''",
     THEN conjunct2, rule_format, OF d]
  have "''video_link'' \<notin> dom (metadata (create_document (example_loader False) d))"
    by (rule o[THEN conjunct1, rule_format, OF post_with_time_only_shape(2)])
  moreover have "''image_links'' \<notin> dom (metadata (create_document (example_loader False) d))"
    by (rule o[THEN conjunct2, THEN conjunct1, rule_format, OF post_with_time_only_shape(3)])
  moreover have "''poll_content'' \<notin> dom (metadata (create_document (example_loader False) d))"
    by (rule o[THEN conjunct2, THEN conjunct2, THEN conjunct1, rule_format,
          OF post_with_time_only_shape(4)])
  ultimately show ?thesis using 1 d by simp
qed


end
